theory Spec2Isabelle
  imports Main
begin

section \<open>Python strings\<close>

text \<open>
  The program is Python; its \<open>str\<close> values are modelled as \<open>string\<close>, a character
  standing for the code point of its number, from 0 to 255. On these code points
  \<open>is_space\<close> is \<open>str.isspace\<close>, which is also what \<open>str.strip\<close> removes and what the
  class \<open>\s\<close> of a regular expression matches; \<open>is_word\<close> is the class \<open>\w\<close> (letters,
  digits and other numeric characters, and the underscore); \<open>lower_char\<close> is
  \<open>str.lower\<close> on one character. Text with a code point above 255 is outside of the
  model.
\<close>

definition is_space :: "char \<Rightarrow> bool" where
  "is_space c = (let n = (of_char c :: nat) in
     (9 \<le> n \<and> n \<le> 13) \<or> (28 \<le> n \<and> n \<le> 32) \<or> n = 133 \<or> n = 160)"

definition is_word :: "char \<Rightarrow> bool" where
  "is_word c = (let n = (of_char c :: nat) in
     (48 \<le> n \<and> n \<le> 57) \<or> (65 \<le> n \<and> n \<le> 90) \<or> n = 95 \<or> (97 \<le> n \<and> n \<le> 122) \<or>
     n = 170 \<or> n = 178 \<or> n = 179 \<or> n = 181 \<or> n = 185 \<or> n = 186 \<or>
     (188 \<le> n \<and> n \<le> 190) \<or> (192 \<le> n \<and> n \<le> 214) \<or> (216 \<le> n \<and> n \<le> 246) \<or>
     (248 \<le> n \<and> n \<le> 255))"

definition lower_char :: "char \<Rightarrow> char" where
  "lower_char c = (let n = (of_char c :: nat) in
     if (65 \<le> n \<and> n \<le> 90) \<or> (192 \<le> n \<and> n \<le> 214) \<or> (216 \<le> n \<and> n \<le> 222)
     then char_of (n + 32) else c)"

definition lower :: "string \<Rightarrow> string" where
  "lower s = map lower_char s"

definition strip :: "string \<Rightarrow> string" where
  "strip s = rev (dropWhile is_space (rev (dropWhile is_space s)))"

fun startswith :: "string \<Rightarrow> string \<Rightarrow> bool" where
  "startswith s [] = True"
| "startswith [] (p # ps) = False"
| "startswith (c # cs) (p # ps) = (c = p \<and> startswith cs ps)"

definition endswith :: "string \<Rightarrow> string \<Rightarrow> bool" where
  "endswith s p = startswith (rev s) (rev p)"

text \<open>\<open>contains s sub\<close> is Python's \<open>sub in s\<close>.\<close>

fun contains :: "string \<Rightarrow> string \<Rightarrow> bool" where
  "contains [] sub = (sub = [])"
| "contains (c # cs) sub = (startswith (c # cs) sub \<or> contains cs sub)"

text \<open>
  \<open>split sep s\<close> is \<open>s.split(sep)\<close> for a non-empty separator: the pieces between the
  non-overlapping occurrences of \<open>sep\<close>, found from the left. The second argument of
  \<open>split_from\<close> is the piece read so far.
\<close>

function split_from :: "string \<Rightarrow> string \<Rightarrow> string \<Rightarrow> string list" where
  "split_from sep cur s =
     (if s = [] then [cur]
      else if sep \<noteq> [] \<and> startswith s sep then cur # split_from sep [] (drop (length sep) s)
      else split_from sep (cur @ [hd s]) (tl s))"
  by pat_completeness auto
termination
  by (relation "measure (\<lambda>(sep, cur, s). length s)") auto

declare split_from.simps [simp del]

definition split :: "string \<Rightarrow> string \<Rightarrow> string list" where
  "split sep s = split_from sep [] s"

text \<open>\<open>join sep xs\<close> is \<open>sep.join(xs)\<close>.\<close>

fun join :: "string \<Rightarrow> string list \<Rightarrow> string" where
  "join sep [] = []"
| "join sep [x] = x"
| "join sep (x # y # ys) = x @ sep @ join sep (y # ys)"

text \<open>\<open>str_int\<close> is \<open>str\<close> on an integer, the decimal numeral an f-string prints.\<close>

fun digits :: "nat \<Rightarrow> string" where
  "digits n = (if n < 10 then [''0123456789'' ! n]
               else digits (n div 10) @ [''0123456789'' ! (n mod 10)])"

declare digits.simps [simp del]

definition str_int :: "int \<Rightarrow> string" where
  "str_int i = (if i < 0 then CHR ''-'' # digits (nat (- i)) else digits (nat i))"

section \<open>The command executor\<close>

text \<open>
  \<open>BashExecutor.run\<close> calls the operating system: \<open>os.path.exists\<close>, \<open>os.makedirs\<close>
  and \<open>subprocess.run\<close>, and it prints to the console. The operating system, the file
  system, the console and the language model are the environment of the program: a
  record of functions over a world \<open>'w\<close> that the program cannot see into. A call that
  can raise returns \<open>Inl\<close> of the exception's text; \<open>print_line\<close> returns the text of
  the exception when the console refuses the line (a \<open>UnicodeEncodeError\<close> for a
  character that the console's encoding does not have) and \<open>None\<close> when the line is
  printed.
\<close>

datatype proc_outcome =
    Finished string string int
  | TimeoutExpired
  | LaunchError string

datatype llm_outcome = Reply string | Failure string

record 'w env =
  path_exists :: "string \<Rightarrow> 'w \<Rightarrow> bool"
  makedirs :: "string \<Rightarrow> 'w \<Rightarrow> string + 'w"
  subprocess_run :: "string \<Rightarrow> string option \<Rightarrow> int \<Rightarrow> 'w \<Rightarrow> proc_outcome \<times> 'w"
  write_file :: "string \<Rightarrow> string \<Rightarrow> 'w \<Rightarrow> string + 'w"
  read_file :: "string \<Rightarrow> 'w \<Rightarrow> string + string"
  completion :: "(string \<times> string) list \<Rightarrow> 'w \<Rightarrow> llm_outcome \<times> 'w"
  sleep :: "nat \<Rightarrow> 'w \<Rightarrow> 'w"
  print_line :: "string \<Rightarrow> 'w \<Rightarrow> string option"

text \<open>
  Every call of the environment is recorded, in the order the program makes it, together
  with every change of an agent's conversation. A message is a pair of its role and its
  content.
\<close>

type_synonym message = "string \<times> string"

datatype event =
    PathExists string
  | MakeDirs string
  | Ran string
  | WroteFile string string
  | ReadFile string
  | Asked "message list"
  | Slept nat
  | Said message
  | Unsaid
  | Printed string

text \<open>
  The exceptions the \<open>try\<close> block of \<open>run\<close> can raise: \<open>subprocess.TimeoutExpired\<close>,
  and any other, with its text.
\<close>

datatype exn = TimeoutExn | OtherExn string

text \<open>Lines 89 and 90.\<close>

definition ensure_dir :: "'w env \<Rightarrow> string option \<Rightarrow> 'w \<Rightarrow> (string + 'w) \<times> event list" where
  "ensure_dir E cwd w =
     (case cwd of
        None \<Rightarrow> (Inr w, [])
      | Some d \<Rightarrow>
          if d = [] then (Inr w, [])
          else if path_exists E d w then (Inr w, [PathExists d])
          else (makedirs E d w, [PathExists d, MakeDirs d]))"

text \<open>The text built from a finished process: lines 101 to 106.\<close>

definition captured :: "string \<Rightarrow> string \<Rightarrow> string \<Rightarrow> int \<Rightarrow> string" where
  "captured command out err rc =
     (let output = ''$ '' @ command @ ''\<newline>'';
          output = (if out \<noteq> [] then output @ out @ ''\<newline>'' else output);
          output = (if err \<noteq> [] then output @ ''STDERR: '' @ err @ ''\<newline>'' else output)
      in output @ ''Exit code: '' @ str_int rc @ ''\<newline>'')"

text \<open>The two lines printed at lines 109 and 110, inside of the \<open>try\<close> block.\<close>

definition result_line :: "bool \<Rightarrow> string" where
  "result_line success = ''[BASH] Result: '' @ (if success then ''SUCCESS'' else ''FAILED'')"

definition output_line :: "string \<Rightarrow> string" where
  "output_line output = ''[BASH] Output: '' @ take 200 output @ ''...''"

text \<open>
  The \<open>try\<close> block, lines 88 to 112. An exception of one of its two prints is raised
  inside of the block, after the process has run.
\<close>

definition run_body ::
  "'w env \<Rightarrow> string \<Rightarrow> string option \<Rightarrow> int \<Rightarrow> 'w \<Rightarrow> (exn + bool \<times> string) \<times> event list \<times> 'w" where
  "run_body E command cwd timeout w =
     (case ensure_dir E cwd w of
        (Inl e, evs) \<Rightarrow> (Inl (OtherExn e), evs, w)
      | (Inr w1, evs) \<Rightarrow>
          (case subprocess_run E command cwd timeout w1 of
             (TimeoutExpired, w2) \<Rightarrow> (Inl TimeoutExn, evs @ [Ran command], w2)
           | (LaunchError e, w2) \<Rightarrow> (Inl (OtherExn e), evs @ [Ran command], w2)
           | (Finished out err rc, w2) \<Rightarrow>
               (let output = captured command out err rc;
                    success = (rc = 0);
                    evs1 = evs @ [Ran command, Printed (result_line success)]
                in case print_line E (result_line success) w2 of
                     Some e \<Rightarrow> (Inl (OtherExn e), evs1, w2)
                   | None \<Rightarrow>
                       (case print_line E (output_line output) w2 of
                          Some e \<Rightarrow> (Inl (OtherExn e), evs1 @ [Printed (output_line output)], w2)
                        | None \<Rightarrow>
                            (Inr (success, output), evs1 @ [Printed (output_line output)], w2)))))"

text \<open>\<open>str\<close> of the \<open>cwd\<close> argument, as the f-string of line 85 prints it.\<close>

definition str_cwd :: "string option \<Rightarrow> string" where
  "str_cwd cwd = (case cwd of None \<Rightarrow> ''None'' | Some d \<Rightarrow> d)"

definition executing_line :: "string \<Rightarrow> string option \<Rightarrow> string" where
  "executing_line command cwd = ''[BASH] Executing in '' @ str_cwd cwd @ '': '' @ command"

text \<open>
  \<open>BashExecutor.run\<close>. The result is \<open>Inl\<close> of an exception's text when the exception
  leaves the function: the print of line 85 stands before the \<open>try\<close>, and the prints of
  lines 116 and 120 stand inside of the two handlers.
\<close>

definition run ::
  "'w env \<Rightarrow> string \<Rightarrow> string option \<Rightarrow> int \<Rightarrow> 'w \<Rightarrow> (string + bool \<times> string) \<times> event list \<times> 'w" where
  "run E command cwd timeout w =
     (case print_line E (executing_line command cwd) w of
        Some e \<Rightarrow> (Inl e, [Printed (executing_line command cwd)], w)
      | None \<Rightarrow>
          (case run_body E command cwd timeout w of
             (Inr r, evs, w') \<Rightarrow> (Inr r, Printed (executing_line command cwd) # evs, w')
           | (Inl TimeoutExn, evs, w') \<Rightarrow>
               (let output = ''$ '' @ command @ ''\<newline>ERROR: Command timed out after ''
                               @ str_int timeout @ '' seconds'';
                    line = ''[BASH] TIMEOUT: '' @ command;
                    evs1 = Printed (executing_line command cwd) # evs @ [Printed line]
                in case print_line E line w' of
                     Some e \<Rightarrow> (Inl e, evs1, w')
                   | None \<Rightarrow> (Inr (False, output), evs1, w'))
           | (Inl (OtherExn x), evs, w') \<Rightarrow>
               (let output = ''$ '' @ command @ ''\<newline>ERROR: '' @ x;
                    line = ''[BASH] EXCEPTION: '' @ x;
                    evs1 = Printed (executing_line command cwd) # evs @ [Printed line]
                in case print_line E line w' of
                     Some e \<Rightarrow> (Inl e, evs1, w')
                   | None \<Rightarrow> (Inr (False, output), evs1, w'))))"

section \<open>The registry and the agent session\<close>

text \<open>
  The dataclasses \<open>Task\<close> and \<open>Agent\<close>; their time stamps and thread handles play no
  part in any decision and are left out. Field \<open>id\<close> is \<open>task_id\<close> and \<open>agent_id\<close>
  here, \<open>type\<close> is \<open>agent_type\<close>, \<open>output\<close> is \<open>task_output\<close>, and the two \<open>status\<close> fields are \<open>status\<close> and
  \<open>agent_status\<close>.
\<close>

record task =
  task_id :: string
  description :: string
  branch :: string
  phase :: int
  status :: string
  assigned_to :: "string option"
  task_output :: "string option"

record agent =
  agent_id :: string
  agent_type :: string
  project_id :: string
  agent_status :: string
  current_task :: "string option"

text \<open>
  What one running agent reads and writes: its conversation \<open>self.messages\<close>, the
  project it belongs to (\<open>project_dir\<close>, \<open>tasks\<close>, \<open>project_status\<close>,
  \<open>swe_agent_ids\<close>), the global dictionary \<open>agents\<close>, and the world. The \<open>trace\<close> is
  the record of the events, kept for the proofs; no decision reads it.
\<close>

record 'w state =
  messages :: "message list"
  project_dir :: string
  tasks :: "task list"
  project_status :: string
  swe_agent_ids :: "string list"
  agents :: "string \<rightharpoonup> agent"
  trace :: "event list"
  world :: 'w

definition say :: "message \<Rightarrow> 'w state \<Rightarrow> 'w state" where
  "say m s = s\<lparr>messages := messages s @ [m], trace := trace s @ [Said m]\<rparr>"

definition unsay :: "'w state \<Rightarrow> 'w state" where
  "unsay s = s\<lparr>messages := butlast (messages s), trace := trace s @ [Unsaid]\<rparr>"

subsection \<open>\<open>SimpleAgent.query_llm\<close>\<close>

text \<open>
  The loop \<open>for attempt in range(max_retries)\<close>: \<open>attempt\<close> counts up and the last
  argument but one counts the iterations left. When no iteration is left the loop ends,
  the function has no statement left and returns \<open>None\<close>. Python's \<open>continue\<close> and the
  end of the \<open>except\<close> block both lead to the next iteration.
\<close>

fun attempts :: "'w env \<Rightarrow> nat \<Rightarrow> nat \<Rightarrow> nat \<Rightarrow> 'w state \<Rightarrow> string option \<times> 'w state" where
  "attempts E max_retries attempt 0 s = (None, s)"
| "attempts E max_retries attempt (Suc left) s =
     (let s1 = (if attempt > 0
                then s\<lparr>trace := trace s @ [Slept (2 ^ attempt)],
                       world := sleep E (2 ^ attempt) (world s)\<rparr>
                else s);
          (r, w') = completion E (messages s1) (world s1);
          s2 = s1\<lparr>trace := trace s1 @ [Asked (messages s1)], world := w'\<rparr>
      in case r of
           Reply reply \<Rightarrow> (Some reply, say (''assistant'', reply) s2)
         | Failure e \<Rightarrow>
             if contains (lower e) ''rate limit'' \<or> contains (lower e) ''timeout''
             then attempts E max_retries (Suc attempt) left s2
             else if int attempt = int max_retries - 1
             then (let fallback_msg = ''LLM query failed after '' @ str_int (int max_retries)
                                        @ '' attempts. Last error: '' @ e;
                       s3 = (if messages s2 \<noteq> [] \<and> fst (last (messages s2)) = ''user''
                             then unsay s2 else s2)
                   in (Some fallback_msg, s3))
             else attempts E max_retries (Suc attempt) left s2)"

definition query_llm :: "'w env \<Rightarrow> string \<Rightarrow> nat \<Rightarrow> 'w state \<Rightarrow> string option \<times> 'w state" where
  "query_llm E message max_retries s =
     attempts E max_retries 0 max_retries (say (''user'', message) s)"

text \<open>The test of line 401 of the source: the failures that \<open>query_llm\<close> retries at once.\<close>

definition retryable :: "string \<Rightarrow> bool" where
  "retryable e = (contains (lower e) ''rate limit'' \<or> contains (lower e) ''timeout'')"

section \<open>Regular expressions\<close>

text \<open>
  The five patterns of the program use literals, character classes repeated greedily or
  lazily, groups and one optional part. \<open>Rep P n g\<close> is the class \<open>P\<close> repeated at least
  \<open>n\<close> times, greedily when \<open>g\<close> holds. \<open>ways r s\<close> lists the ways \<open>r\<close> matches a prefix of
  \<open>s\<close>, in the order in which Python's backtracking matcher tries them; each way gives
  the texts of the groups and the rest of \<open>s\<close>. The match Python reports is the first way.
\<close>

datatype rx =
    Lit string
  | Rep "char \<Rightarrow> bool" nat bool
  | Grp rx
  | Opt rx
  | Cat rx rx

fun rep_rests :: "(char \<Rightarrow> bool) \<Rightarrow> nat \<Rightarrow> string \<Rightarrow> string list" where
  "rep_rests P n [] = (if n = 0 then [[]] else [])"
| "rep_rests P n (c # cs) =
     (if n = 0 then [c # cs] else []) @ (if P c then rep_rests P (n - 1) cs else [])"

fun groups :: "rx \<Rightarrow> nat" where
  "groups (Lit l) = 0"
| "groups (Rep P n g) = 0"
| "groups (Grp r) = Suc (groups r)"
| "groups (Opt r) = groups r"
| "groups (Cat a b) = groups a + groups b"

fun ways :: "rx \<Rightarrow> string \<Rightarrow> (string option list \<times> string) list" where
  "ways (Lit l) s = (if startswith s l then [([], drop (length l) s)] else [])"
| "ways (Rep P n g) s =
     map (\<lambda>rest. ([], rest)) (if g then rev (rep_rests P n s) else rep_rests P n s)"
| "ways (Grp r) s =
     map (\<lambda>(gs, rest). (Some (take (length s - length rest) s) # gs, rest)) (ways r s)"
| "ways (Opt r) s = ways r s @ [(replicate (groups r) None, s)]"
| "ways (Cat a b) s =
     concat (map (\<lambda>(gs1, rest1). map (\<lambda>(gs2, rest2). (gs1 @ gs2, rest2)) (ways b rest1))
               (ways a s))"

definition match_at :: "rx \<Rightarrow> string \<Rightarrow> (string option list \<times> string) option" where
  "match_at r s = (case ways r s of [] \<Rightarrow> None | w # _ \<Rightarrow> Some w)"

fun seq :: "rx list \<Rightarrow> rx" where
  "seq [] = Lit []"
| "seq [r] = r"
| "seq (r # rs) = Cat r (seq rs)"

text \<open>
  \<open>re.search\<close>: the first position with a match, as the pair of the start and the end of
  the match. \<open>re.finditer\<close>: the matches from the left, each search starting where the
  last match ended; the second argument of \<open>finditer_from\<close> counts the characters of the
  last match still to be passed. None of the program's patterns matches the empty text.
\<close>

fun search_from :: "rx \<Rightarrow> nat \<Rightarrow> string \<Rightarrow> (nat \<times> nat) option" where
  "search_from r pos [] =
     (case match_at r [] of None \<Rightarrow> None | Some (gs, rest) \<Rightarrow> Some (pos, pos))"
| "search_from r pos (c # cs) =
     (case match_at r (c # cs) of
        None \<Rightarrow> search_from r (Suc pos) cs
      | Some (gs, rest) \<Rightarrow> Some (pos, pos + (length (c # cs) - length rest)))"

definition search :: "rx \<Rightarrow> string \<Rightarrow> (nat \<times> nat) option" where
  "search r s = search_from r 0 s"

fun finditer_from :: "rx \<Rightarrow> nat \<Rightarrow> string \<Rightarrow> string option list list" where
  "finditer_from r skip [] =
     (if skip = 0 then (case match_at r [] of None \<Rightarrow> [] | Some (gs, rest) \<Rightarrow> [gs]) else [])"
| "finditer_from r skip (c # cs) =
     (if skip > 0 then finditer_from r (skip - 1) cs
      else case match_at r (c # cs) of
             None \<Rightarrow> finditer_from r 0 cs
           | Some (gs, rest) \<Rightarrow> gs # finditer_from r (length (c # cs) - length rest - 1) cs)"

definition finditer :: "rx \<Rightarrow> string \<Rightarrow> string option list list" where
  "finditer r s = finditer_from r 0 s"

text \<open>\<open>group_or_empty i gs\<close> is \<open>match.group(i + 1) or ''\<close>.\<close>

definition group_or_empty :: "nat \<Rightarrow> string option list \<Rightarrow> string" where
  "group_or_empty i gs = (case drop i gs of Some t # _ \<Rightarrow> t | _ \<Rightarrow> [])"

definition any_char :: "char \<Rightarrow> bool" where
  "any_char c = True"

definition not_quote :: "char \<Rightarrow> bool" where
  "not_quote c = (c \<noteq> CHR 0x22)"

definition spaces :: rx where
  "spaces = Rep is_space 0 True"

text \<open>The pattern of line 169, with \<open>re.DOTALL\<close>.\<close>

definition bash_block_rx :: rx where
  "bash_block_rx = seq [Lit ''```bash\<newline>'', Grp (Rep any_char 0 False), Lit ''\<newline>```'']"

text \<open>The pattern of line 176.\<close>

definition redirect_rx :: rx where
  "redirect_rx = seq [Lit '')'', spaces, Rep (\<lambda>c. c = CHR ''>'') 1 True, spaces,
                      Rep (\<lambda>c. \<not> is_space c) 1 True]"

text \<open>The pattern of line 249, with \<open>re.DOTALL\<close>.\<close>

definition file_rx :: rx where
  "file_rx = seq [Lit ''<file'', Rep is_space 1 True, Lit (''path='' @ [CHR 0x22]),
                  Grp (Rep not_quote 1 True), Lit [CHR 0x22], spaces, Lit ''>```'',
                  Opt (Cat (Grp (Rep is_word 1 True)) (Lit ''\<newline>'')),
                  Grp (Rep any_char 0 False), Lit ''```</file>'']"

text \<open>The pattern of line 309.\<close>

definition read_file_rx :: rx where
  "read_file_rx = seq [Lit ''READ_FILE'', spaces, Lit ''('', spaces, Lit (''path='' @ [CHR 0x22]),
                       Grp (Rep not_quote 1 True), Lit [CHR 0x22], spaces, Lit '')'']"

text \<open>The pattern of line 354.\<close>

definition tool_call_rx :: rx where
  "tool_call_rx =
     seq [Lit ''CREATE_SWE_AGENT'', spaces, Lit ''('', spaces,
          Lit (''task_id='' @ [CHR 0x22]), Grp (Rep not_quote 1 True), Lit [CHR 0x22],
          spaces, Lit '','', spaces,
          Lit (''description='' @ [CHR 0x22]), Grp (Rep not_quote 1 True), Lit [CHR 0x22],
          spaces, Lit '','', spaces,
          Lit (''branch='' @ [CHR 0x22]), Grp (Rep not_quote 1 True), Lit [CHR 0x22],
          spaces, Lit '')'']"

section \<open>The response parser\<close>

text \<open>
  The four extraction methods of \<open>SimpleAgent\<close>. Their calls of \<open>self.log\<close> write to a
  log and decide nothing; they are left out here and below.
\<close>

subsection \<open>\<open>SimpleAgent.extract_bash_commands\<close>\<close>

definition output_patterns :: "string list" where
  "output_patterns = [''switched to'', ''already up to date'', ''output:'', ''error:'',
                      ''volume in drive'', ''directory of'', ''exit code:'']"

definition looks_like_output :: "string \<Rightarrow> bool" where
  "looks_like_output line = list_ex (\<lambda>pattern. contains (lower line) pattern) output_patterns"

text \<open>The loop of lines 186 to 194 over the lines that follow a grouped command.\<close>

fun remaining_commands :: "string list \<Rightarrow> string list" where
  "remaining_commands [] = []"
| "remaining_commands (raw # rest) =
     (let line = strip raw
      in (if line \<noteq> [] \<and> \<not> startswith line ''#''
          then (if \<not> looks_like_output line
                then (if \<not> startswith line ''CREATE_SWE_AGENT'' then [line] else [])
                else [])
          else [])
         @ remaining_commands rest)"

text \<open>The loop of lines 200 to 203, taken when a grouped command has no redirection.\<close>

fun fallback_commands :: "string list \<Rightarrow> string list" where
  "fallback_commands [] = []"
| "fallback_commands (raw # rest) =
     (let line = strip raw
      in (if line \<noteq> [] \<and> \<not> startswith line ''#'' \<and> line \<noteq> ''('' \<and> line \<noteq> '')''
          then [line] else [])
         @ fallback_commands rest)"

text \<open>
  The loop of lines 209 to 234; the second argument is \<open>current_command\<close>. A line ending
  in a backslash is kept, without the backslash, for the next line.
\<close>

fun regular_commands :: "string list \<Rightarrow> string list \<Rightarrow> string list" where
  "regular_commands [] current_command =
     (if current_command \<noteq> [] then [join '' '' current_command] else [])"
| "regular_commands (raw # rest) current_command =
     (let line = strip raw
      in if line \<noteq> [] \<and> \<not> startswith line ''#''
         then (if looks_like_output line then regular_commands rest current_command
               else if endswith line [CHR 0x5C]
               then regular_commands rest (current_command @ [butlast line])
               else (let full_command = join '' '' (current_command @ [line])
                     in (if \<not> startswith full_command ''CREATE_SWE_AGENT''
                         then [full_command] else [])
                        @ regular_commands rest []))
         else regular_commands rest current_command)"

definition block_commands :: "string \<Rightarrow> string list" where
  "block_commands raw_block =
     (let block = strip raw_block
      in if startswith block ''('' \<and> contains block '')''
         then (case search redirect_rx block of
                 Some (start, end) \<Rightarrow>
                   (let grouped_command = take end block;
                        remaining = strip (drop end block)
                    in grouped_command #
                       (if remaining \<noteq> [] then remaining_commands (split ''\<newline>'' remaining)
                        else []))
               | None \<Rightarrow> fallback_commands (split ''\<newline>'' block))
         else regular_commands (split ''\<newline>'' block) [])"

definition bash_blocks :: "string \<Rightarrow> string list" where
  "bash_blocks text = map (group_or_empty 0) (finditer bash_block_rx text)"

definition extract_bash_commands :: "string \<Rightarrow> string list" where
  "extract_bash_commands text = concat (map block_commands (bash_blocks text))"

subsection \<open>The other three extractions\<close>

record file_creation =
  path :: string
  language :: string
  content :: string

definition extract_file_creations :: "string \<Rightarrow> file_creation list" where
  "extract_file_creations text =
     map (\<lambda>gs. \<lparr> path = group_or_empty 0 gs,
                 language = group_or_empty 1 gs,
                 content = strip (group_or_empty 2 gs) \<rparr>)
         (finditer file_rx text)"

definition extract_read_file_calls :: "string \<Rightarrow> string list" where
  "extract_read_file_calls text = map (group_or_empty 0) (finditer read_file_rx text)"

record tool_call =
  tool :: string
  call_task_id :: string
  call_description :: string
  call_branch :: string

definition extract_tool_calls :: "string \<Rightarrow> tool_call list" where
  "extract_tool_calls text =
     map (\<lambda>gs. \<lparr> tool = ''create_swe_agent'',
                 call_task_id = group_or_empty 0 gs,
                 call_description = group_or_empty 1 gs,
                 call_branch = group_or_empty 2 gs \<rparr>)
         (finditer tool_call_rx text)"

section \<open>Applying the actions of a reply\<close>

text \<open>
  \<open>os.path.join\<close> and \<open>os.path.dirname\<close> for two arguments, as \<open>posixpath\<close> defines
  them: an absolute second argument replaces the first.
\<close>

definition path_join :: "string \<Rightarrow> string \<Rightarrow> string" where
  "path_join a b =
     (if startswith b ''/'' then b
      else if a = [] \<or> endswith a ''/'' then a @ b
      else a @ ''/'' @ b)"

definition dirname :: "string \<Rightarrow> string" where
  "dirname p =
     (let head = rev (dropWhile (\<lambda>c. c \<noteq> CHR ''/'') (rev p))
      in if head \<noteq> [] \<and> head \<noteq> replicate (length head) (CHR ''/'')
         then rev (dropWhile (\<lambda>c. c = CHR ''/'') (rev head))
         else head)"

definition emit :: "event list \<Rightarrow> 'w state \<Rightarrow> 'w state" where
  "emit evs s = s\<lparr>trace := trace s @ evs\<rparr>"

subsection \<open>\<open>SimpleAgent.execute_read_file\<close>\<close>

definition execute_read_file :: "'w env \<Rightarrow> string \<Rightarrow> 'w state \<Rightarrow> (bool \<times> string) \<times> 'w state" where
  "execute_read_file E file_path s =
     (let full_path = path_join (project_dir s) file_path;
          s1 = emit [PathExists full_path] s
      in if \<not> path_exists E full_path (world s)
         then ((False, ''File not found: '' @ file_path), s1)
         else (case read_file E full_path (world s) of
                 Inl e \<Rightarrow>
                   ((False, ''Failed to read file '' @ file_path @ '': '' @ e),
                    emit [ReadFile full_path] s1)
               | Inr text \<Rightarrow>
                   (let output = ''Contents of '' @ file_path @ '':\<newline>'' @ text
                    in ((True, output), say (''user'', output) (emit [ReadFile full_path] s1)))))"

text \<open>The loop \<open>for file_path in read_calls\<close> of the callers, which keep the results.\<close>

fun execute_read_files :: "'w env \<Rightarrow> string list \<Rightarrow> 'w state \<Rightarrow> (bool \<times> string) list \<times> 'w state" where
  "execute_read_files E [] s = ([], s)"
| "execute_read_files E (file_path # rest) s =
     (let (r, s1) = execute_read_file E file_path s;
          (rs, s2) = execute_read_files E rest s1
      in (r # rs, s2))"

subsection \<open>\<open>SimpleAgent.create_files_from_tags\<close>\<close>

text \<open>The body of the loop for one file, and the loop.\<close>

definition create_file :: "'w env \<Rightarrow> file_creation \<Rightarrow> 'w state \<Rightarrow> (bool \<times> string) \<times> 'w state" where
  "create_file E file_info s =
     (let relative_path = path file_info;
          text = content file_info;
          full_path = path_join (project_dir s) relative_path;
          dir_path = dirname full_path;
          made = (if dir_path \<noteq> [] then makedirs E dir_path (world s) else Inr (world s));
          s1 = (if dir_path \<noteq> [] then emit [MakeDirs dir_path] s else s)
      in case made of
           Inl e \<Rightarrow> ((False, ''Failed to create file '' @ relative_path @ '': '' @ e), s1)
         | Inr w1 \<Rightarrow>
             (case write_file E full_path text w1 of
                Inl e \<Rightarrow>
                  ((False, ''Failed to create file '' @ relative_path @ '': '' @ e),
                   emit [WroteFile full_path text] (s1\<lparr>world := w1\<rparr>))
              | Inr w2 \<Rightarrow>
                  ((True, ''Created file: '' @ relative_path @ ''\<newline>Size: ''
                          @ str_int (int (length text)) @ '' bytes''),
                   say (''user'', ''File created: '' @ relative_path)
                     (emit [WroteFile full_path text] (s1\<lparr>world := w2\<rparr>)))))"

fun create_files_from_tags ::
  "'w env \<Rightarrow> file_creation list \<Rightarrow> 'w state \<Rightarrow> (bool \<times> string) list \<times> 'w state" where
  "create_files_from_tags E [] s = ([], s)"
| "create_files_from_tags E (file_info # rest) s =
     (let (r, s1) = create_file E file_info s;
          (rs, s2) = create_files_from_tags E rest s1
      in (r # rs, s2))"

subsection \<open>\<open>SimpleAgent.execute_bash_commands\<close>\<close>

text \<open>
  One command: run it in the project directory and add its output to the conversation.
  The result is \<open>Inl\<close> when \<open>run\<close> raises; the exception then leaves
  \<open>execute_bash_commands\<close> too, which has no handler, and the results so far are lost.
\<close>

definition execute_command ::
  "'w env \<Rightarrow> string \<Rightarrow> 'w state \<Rightarrow> (string + bool \<times> string) \<times> 'w state" where
  "execute_command E cmd s =
     (case run E cmd (Some (project_dir s)) 30 (world s) of
        (Inl e, evs, w') \<Rightarrow> (Inl e, emit evs (s\<lparr>world := w'\<rparr>))
      | (Inr (success, output), evs, w') \<Rightarrow>
          (Inr (success, output),
           say (''user'', ''Command executed:\<newline>'' @ output) (emit evs (s\<lparr>world := w'\<rparr>))))"

fun execute_bash_commands ::
  "'w env \<Rightarrow> string list \<Rightarrow> 'w state \<Rightarrow> (string + (bool \<times> string) list) \<times> 'w state" where
  "execute_bash_commands E [] s = (Inr [], s)"
| "execute_bash_commands E (cmd # rest) s =
     (case execute_command E cmd s of
        (Inl e, s1) \<Rightarrow> (Inl e, s1)
      | (Inr r, s1) \<Rightarrow>
          if \<not> fst r then (Inr [r], s1)
          else (case execute_bash_commands E rest s1 of
                  (Inl e, s2) \<Rightarrow> (Inl e, s2)
                | (Inr rs, s2) \<Rightarrow> (Inr (r # rs), s2)))"

subsection \<open>The three stages of a worker's step\<close>

text \<open>
  Lines 734 to 752 of \<open>run_swe_agent\<close>: the reads, then the file creations, then the
  commands of one reply, with the results of all three. An exception of the third stage
  leaves the step.
\<close>

definition apply_reply ::
  "'w env \<Rightarrow> string \<Rightarrow> 'w state \<Rightarrow> (string + (bool \<times> string) list) \<times> 'w state" where
  "apply_reply E response s =
     (let (results1, s1) = execute_read_files E (extract_read_file_calls response) s;
          file_creations = extract_file_creations response;
          (results2, s2) = (if file_creations \<noteq> [] then create_files_from_tags E file_creations s1
                            else ([], s1));
          commands = extract_bash_commands response;
          (results3, s3) = (if commands \<noteq> [] then execute_bash_commands E commands s2
                            else (Inr [], s2))
      in case results3 of
           Inl e \<Rightarrow> (Inl e, s3)
         | Inr bash_results \<Rightarrow> (Inr (results1 @ results2 @ bash_results), s3))"

section \<open>Observations on a trace\<close>

text \<open>
  What the claims about the order of effects read off a trace: the paths looked up, the
  directories made, the messages appended to the conversation, and whether a creation of
  a file, a read of a file or a run of a command occurs. \<open>answered pending t\<close> says that
  in \<open>t\<close> every run of a command is followed by an appended message before the next run,
  \<open>pending\<close> telling whether a run is still waiting for its message.
\<close>

definition paths_checked :: "event list \<Rightarrow> string list" where
  "paths_checked t = concat (map (\<lambda>ev. case ev of PathExists p \<Rightarrow> [p] | _ \<Rightarrow> []) t)"

definition dirs_made :: "event list \<Rightarrow> string list" where
  "dirs_made t = concat (map (\<lambda>ev. case ev of MakeDirs d \<Rightarrow> [d] | _ \<Rightarrow> []) t)"

definition said :: "event list \<Rightarrow> message list" where
  "said t = concat (map (\<lambda>ev. case ev of Said m \<Rightarrow> [m] | _ \<Rightarrow> []) t)"

definition commands_run :: "event list \<Rightarrow> string list" where
  "commands_run t = concat (map (\<lambda>ev. case ev of Ran c \<Rightarrow> [c] | _ \<Rightarrow> []) t)"

definition is_read :: "event \<Rightarrow> bool" where
  "is_read ev = (case ev of ReadFile p \<Rightarrow> True | _ \<Rightarrow> False)"

definition is_write :: "event \<Rightarrow> bool" where
  "is_write ev = (case ev of WroteFile p c \<Rightarrow> True | _ \<Rightarrow> False)"

definition is_run :: "event \<Rightarrow> bool" where
  "is_run ev = (case ev of Ran c \<Rightarrow> True | _ \<Rightarrow> False)"


text \<open>
  \<open>registry_kept s s'\<close>: from \<open>s\<close> to \<open>s'\<close> the tasks, the agents and the project
  directory are the same.
\<close>

definition registry_kept :: "'w state \<Rightarrow> 'w state \<Rightarrow> bool" where
  "registry_kept s s' =
     (tasks s' = tasks s \<and> agents s' = agents s \<and> project_dir s' = project_dir s)"


text \<open>The number of calls of the language model in a trace.\<close>

definition queries :: "event list \<Rightarrow> nat" where
  "queries t = length (filter (\<lambda>ev. case ev of Asked m \<Rightarrow> True | _ \<Rightarrow> False) t)"

section \<open>The actions of a reply, after the specification\<close>

text \<open>
  The specification describes \<open>applyReply\<close> as one sequence of actions in a fixed order:
  (1) every read-file request, the content of each file being appended to the
  conversation as a new user message; (2) every file-creation request, materialized
  under the project's working directory, parent directories being created as needed,
  with a short confirmation message per file; (3) every run-command in the order
  extracted, the full captured output of each being appended to the conversation before
  the next is executed, and the remaining commands being dropped at the first failure.
  The definitions of this section follow these words and not the code: \<open>spec_actions\<close>
  is the sequence, \<open>spec_perform\<close> is one action, performed on the environment, and
  \<open>spec_perform_all\<close> performs a sequence. A request that cannot be served is answered
  by a failure and appends nothing. Commands go through the command executor \<open>run\<close>,
  with its timeout of 30 seconds; an exception of the executor ends the sequence.
\<close>

datatype action = ReadAction string | CreateAction file_creation | RunAction string


definition is_run_action :: "action \<Rightarrow> bool" where
  "is_run_action a = (case a of RunAction c \<Rightarrow> True | _ \<Rightarrow> False)"

text \<open>The state after the calls \<open>evs\<close> of the environment, in the world \<open>w\<close>.\<close>

definition after :: "event list \<Rightarrow> 'w \<Rightarrow> 'w state \<Rightarrow> 'w state" where
  "after evs w s = s\<lparr>trace := trace s @ evs, world := w\<rparr>"




text \<open>The results of a stage that may have raised.\<close>

definition results_of :: "string + (bool \<times> string) list \<Rightarrow> (bool \<times> string) list" where
  "results_of x = (case x of Inl e \<Rightarrow> [] | Inr rs \<Rightarrow> rs)"


text \<open>The files opened, for reading and for writing, in a trace.\<close>

definition files_read :: "event list \<Rightarrow> string list" where
  "files_read t = concat (map (\<lambda>ev. case ev of ReadFile p \<Rightarrow> [p] | _ \<Rightarrow> []) t)"

definition files_written :: "event list \<Rightarrow> (string \<times> string) list" where
  "files_written t = concat (map (\<lambda>ev. case ev of WroteFile p c \<Rightarrow> [(p, c)] | _ \<Rightarrow> []) t)"


section \<open>The worker\<close>






text \<open>
  The assignments to the worker's task, which is the first task of the project with the
  worker's task id, and to the worker's entry in \<open>agents\<close>.
\<close>

fun update_task :: "string \<Rightarrow> (task \<Rightarrow> task) \<Rightarrow> task list \<Rightarrow> task list" where
  "update_task tid f [] = []"
| "update_task tid f (t # ts) = (if task_id t = tid then f t # ts else t # update_task tid f ts)"













section \<open>A simulated environment\<close>

text \<open>
  A small world to run the model in: files and directories, the replies the language
  model will give, in order, and a function from a command to what its process does.
  Nothing fails in it but a read of a missing file, a model with no reply left, and its
  console, which has the encoding ASCII and refuses a line with any other character. Its
  file system reads a path as the operating system does: \<open>resolve\<close> gives the names from
  the root down to the file, with \<open>.\<close> skipped and \<open>..\<close> stepping up. A path lies
  \<open>inside\<close> a directory when the directory's names begin the path's names.
\<close>

fun resolve_from :: "string list \<Rightarrow> string list \<Rightarrow> string list" where
  "resolve_from names [] = names"
| "resolve_from names (c # cs) =
     (if c = [] \<or> c = ''.'' then resolve_from names cs
      else if c = ''..'' then resolve_from (butlast names) cs
      else resolve_from (names @ [c]) cs)"

definition resolve :: "string \<Rightarrow> string list" where
  "resolve p = resolve_from [] (split ''/'' p)"

definition inside :: "string \<Rightarrow> string \<Rightarrow> bool" where
  "inside root p = (take (length (resolve root)) (resolve p) = resolve root)"

record sim =
  sim_files :: "(string list \<times> string) list"
  sim_dirs :: "string list list"
  sim_replies :: "llm_outcome list"

definition sim_env :: "(string \<Rightarrow> proc_outcome) \<Rightarrow> sim env" where
  "sim_env proc =
     \<lparr> path_exists = (\<lambda>p w. case map_of (sim_files w) (resolve p) of
                               None \<Rightarrow> resolve p \<in> set (sim_dirs w)
                             | Some c \<Rightarrow> True),
       makedirs = (\<lambda>d w. Inr (w\<lparr>sim_dirs := resolve d # sim_dirs w\<rparr>)),
       subprocess_run = (\<lambda>c cwd t w. (proc c, w)),
       write_file = (\<lambda>p c w. Inr (w\<lparr>sim_files := (resolve p, c) # sim_files w\<rparr>)),
       read_file = (\<lambda>p w. case map_of (sim_files w) (resolve p) of
                             None \<Rightarrow> Inl (''No such file or directory: '' @ p)
                           | Some c \<Rightarrow> Inr c),
       completion = (\<lambda>msgs w. case sim_replies w of
                               [] \<Rightarrow> (Failure ''Connection refused'', w)
                             | r # rs \<Rightarrow> (r, w\<lparr>sim_replies := rs\<rparr>)),
       sleep = (\<lambda>n w. w),
       print_line = (\<lambda>line w. if list_all (\<lambda>c. (of_char c :: nat) < 128) line then None
                               else Some ''UnicodeEncodeError: ordinal not in range(128)'') \<rparr>"

definition sim0 :: sim where
  "sim0 = \<lparr> sim_files = [], sim_dirs = [], sim_replies = [] \<rparr>"

definition sim_state :: "sim \<Rightarrow> sim state" where
  "sim_state w =
     \<lparr> messages = [(''system'', ''You are a software engineer.'')],
       project_dir = ''/srv/projects/demo'',
       tasks = [],
       project_status = ''in_progress'',
       swe_agent_ids = [],
       agents = Map.empty,
       trace = [],
       world = w \<rparr>"

text \<open>A model that answers every call with the same failure, \<open>n\<close> times.\<close>

definition failing :: "string \<Rightarrow> nat \<Rightarrow> sim" where
  "failing e n = sim0\<lparr>sim_replies := replicate n (Failure e)\<rparr>"

text \<open>
  A reply that asks for a read, a file and three commands, the second of which fails, in
  a project directory that is not the root the two paths end in.
\<close>

definition demo_reply :: string where
  "demo_reply =
     ''<file path='' @ [CHR 0x22] @ ''../escape.txt'' @ [CHR 0x22] @ ''>```x```</file> '' @
     ''READ_FILE(path='' @ [CHR 0x22] @ ''../../secret.txt'' @ [CHR 0x22] @ '')\<newline>'' @
     ''```bash\<newline>ls\<newline>false\<newline>pwd\<newline>```''"

definition demo_env :: "sim env" where
  "demo_env = sim_env (\<lambda>c. if c = ''false'' then Finished [] [] 1 else Finished ''ok'' [] 0)"

definition demo_state :: "sim state" where
  "demo_state = sim_state (sim0\<lparr>sim_files := [([''srv'', ''secret.txt''], ''s3cr3t'')],
                                sim_dirs := [[''srv'', ''projects'', ''demo'']]\<rparr>)"







section \<open>Properties of the command executor\<close>


lemma run_ensure_failed:
  "print_line E (executing_line command cwd) w = None \<Longrightarrow>
   ensure_dir E cwd w = (Inl x, evs) \<Longrightarrow>
   run E command cwd timeout w =
     ((case print_line E (''[BASH] EXCEPTION: '' @ x) w of
         Some e \<Rightarrow> Inl e
       | None \<Rightarrow> Inr (False, ''$ '' @ command @ ''\<newline>ERROR: '' @ x)),
      Printed (executing_line command cwd) # evs @ [Printed (''[BASH] EXCEPTION: '' @ x)], w)"
  by (simp add: run_def run_body_def Let_def split: option.splits)

lemma run_timed_out:
  "print_line E (executing_line command cwd) w = None \<Longrightarrow>
   ensure_dir E cwd w = (Inr w1, evs) \<Longrightarrow>
   subprocess_run E command cwd timeout w1 = (TimeoutExpired, w2) \<Longrightarrow>
   run E command cwd timeout w =
     ((case print_line E (''[BASH] TIMEOUT: '' @ command) w2 of
         Some e \<Rightarrow> Inl e
       | None \<Rightarrow> Inr (False, ''$ '' @ command @ ''\<newline>ERROR: Command timed out after ''
                              @ str_int timeout @ '' seconds'')),
      Printed (executing_line command cwd) # (evs @ [Ran command])
        @ [Printed (''[BASH] TIMEOUT: '' @ command)], w2)"
  by (simp add: run_def run_body_def Let_def split: option.splits)

lemma run_launch_error:
  "print_line E (executing_line command cwd) w = None \<Longrightarrow>
   ensure_dir E cwd w = (Inr w1, evs) \<Longrightarrow>
   subprocess_run E command cwd timeout w1 = (LaunchError x, w2) \<Longrightarrow>
   run E command cwd timeout w =
     ((case print_line E (''[BASH] EXCEPTION: '' @ x) w2 of
         Some e \<Rightarrow> Inl e
       | None \<Rightarrow> Inr (False, ''$ '' @ command @ ''\<newline>ERROR: '' @ x)),
      Printed (executing_line command cwd) # (evs @ [Ran command])
        @ [Printed (''[BASH] EXCEPTION: '' @ x)], w2)"
  by (simp add: run_def run_body_def Let_def split: option.splits)

lemma run_finished:
  "print_line E (executing_line command cwd) w = None \<Longrightarrow>
   ensure_dir E cwd w = (Inr w1, evs) \<Longrightarrow>
   subprocess_run E command cwd timeout w1 = (Finished out err rc, w2) \<Longrightarrow>
   print_line E (result_line (rc = 0)) w2 = None \<Longrightarrow>
   print_line E (output_line (captured command out err rc)) w2 = None \<Longrightarrow>
   run E command cwd timeout w =
     (Inr (rc = 0, captured command out err rc),
      Printed (executing_line command cwd) #
        (evs @ [Ran command, Printed (result_line (rc = 0))])
        @ [Printed (output_line (captured command out err rc))], w2)"
  by (simp add: run_def run_body_def Let_def)

lemma str_int_0: "str_int 0 = ''0''"
  by code_simp

lemma str_int_30: "str_int 30 = ''30''"
  by code_simp

text \<open>
  When the console takes every line, \<open>run\<close> turns every outcome into a pair of a
  success flag and an output text, as claim C7 describes it: a failure with the error's
  text when the working directory cannot be made or the process cannot be launched, a
  failure naming the timeout in seconds when the process runs into it, and the flag of
  the exit code when the process finishes.
\<close>

lemma run_returns_value:
  assumes console: "\<And>line w'. print_line E line w' = None"
  shows
  "(fst (ensure_dir E cwd w) = Inl e \<longrightarrow>
      fst (run E command cwd timeout w) = Inr (False, ''$ '' @ command @ ''\<newline>ERROR: '' @ e)) \<and>
   (fst (ensure_dir E cwd w) = Inr w1 \<longrightarrow>
      (fst (subprocess_run E command cwd timeout w1) = TimeoutExpired \<longrightarrow>
         fst (run E command cwd timeout w) =
           Inr (False, ''$ '' @ command @ ''\<newline>ERROR: Command timed out after ''
                         @ str_int timeout @ '' seconds'')) \<and>
      (fst (subprocess_run E command cwd timeout w1) = LaunchError e \<longrightarrow>
         fst (run E command cwd timeout w) = Inr (False, ''$ '' @ command @ ''\<newline>ERROR: '' @ e)) \<and>
      (fst (subprocess_run E command cwd timeout w1) = Finished out err rc \<longrightarrow>
         fst (run E command cwd timeout w) = Inr (rc = 0, captured command out err rc)))"
proof -
  obtain r evs where ed: "ensure_dir E cwd w = (r, evs)"
    by (cases "ensure_dir E cwd w")
  obtain p w2 where sp: "subprocess_run E command cwd timeout w1 = (p, w2)"
    by (cases "subprocess_run E command cwd timeout w1")
  show ?thesis
    using run_ensure_failed [of E command cwd w e evs timeout]
      run_timed_out [of E command cwd w w1 evs timeout w2]
      run_launch_error [of E command cwd w w1 evs timeout e w2]
      run_finished [of E command cwd w w1 evs timeout out err rc w2]
    by (simp add: ed sp console)
qed

text \<open>
  Claim C7 says that \<open>run\<close> returns a pair for every command, working directory and
  timeout, and never raises. The code prints the command at line 85, before its \<open>try\<close>
  block: an exception of that print leaves the function. Here the command holds the
  letter e with an acute accent, code point 233, and the console has the encoding ASCII:
  \<open>print\<close> raises a \<open>UnicodeEncodeError\<close>, \<open>run\<close> raises it to its caller, and no
  process is started. The prints of lines 116 and 120, inside of the two handlers, let
  an exception out in the same way.
\<close>

theorem run_raises_when_print_fails:
  "fst (run (sim_env (\<lambda>c. Finished [] [] 0)) (''echo '' @ [CHR 0xE9]) (Some ''/srv/demo'') 30 sim0) =
     Inl ''UnicodeEncodeError: ordinal not in range(128)'' \<and>
   fst (snd (run (sim_env (\<lambda>c. Finished [] [] 0)) (''echo '' @ [CHR 0xE9]) (Some ''/srv/demo'') 30 sim0)) =
     [Printed (''[BASH] Executing in /srv/demo: echo '' @ [CHR 0xE9])]"
  by code_simp

text \<open>
  The same with a process whose error text the console refuses: the exception is caught
  by the handler of line 118, and the print of line 120 raises out of the handler.
\<close>

lemma run_raises_in_handler:
  "fst (run (sim_env (\<lambda>c. LaunchError (''No such file: caf'' @ [CHR 0xE9]))) ''ls'' None 30 sim0) =
     Inl ''UnicodeEncodeError: ordinal not in range(128)''"
  by code_simp

text \<open>
  Claim C8. The command \<open>echo hi\<close>, finishing with exit code 0, the standard output
  \<open>hi\<close> followed by a newline and an empty standard error, is reported as the line
  echoing the command, the standard output, and the line of the exit code; there is no
  \<open>STDERR\<close> section. The console is one that prints every line.
\<close>

theorem run_echo_hi:
  assumes "\<And>line w'. print_line E line w' = None"
    and "fst (ensure_dir E cwd w) = Inr w1"
    and "fst (subprocess_run E ''echo hi'' cwd timeout w1) = Finished ''hi\<newline>'' [] 0"
  shows "fst (run E ''echo hi'' cwd timeout w) =
           Inr (True, ''$ echo hi\<newline>hi\<newline>\<newline>Exit code: 0\<newline>'')"
proof -
  obtain evs where ed: "ensure_dir E cwd w = (Inr w1, evs)"
    using assms(2) by (cases "ensure_dir E cwd w") simp
  obtain w2 where sp: "subprocess_run E ''echo hi'' cwd timeout w1 = (Finished ''hi\<newline>'' [] 0, w2)"
    using assms(3) by (cases "subprocess_run E ''echo hi'' cwd timeout w1") simp
  show ?thesis
    using run_finished [OF assms(1) ed sp assms(1) assms(1)] by (simp add: captured_def str_int_0)
qed

theorem run_echo_hi_witness:
  "fst (ensure_dir ((sim_env (\<lambda>c. Finished ''hi\<newline>'' [] 0))\<lparr>print_line := (\<lambda>line w. None)\<rparr>) None sim0)
     = Inr sim0 \<and>
   fst (subprocess_run ((sim_env (\<lambda>c. Finished ''hi\<newline>'' [] 0))\<lparr>print_line := (\<lambda>line w. None)\<rparr>)
          ''echo hi'' None 30 sim0) = Finished ''hi\<newline>'' [] 0 \<and>
   fst (run ((sim_env (\<lambda>c. Finished ''hi\<newline>'' [] 0))\<lparr>print_line := (\<lambda>line w. None)\<rparr>)
          ''echo hi'' None 30 sim0) =
     Inr (True, ''$ echo hi\<newline>hi\<newline>\<newline>Exit code: 0\<newline>'')"
proof -
  let ?E = "(sim_env (\<lambda>c. Finished ''hi\<newline>'' [] 0))\<lparr>print_line := (\<lambda>line w. None)\<rparr>"
  have p: "print_line ?E line w' = None" for line w'
    by simp
  have a: "fst (ensure_dir ?E None sim0) = Inr sim0"
    by (simp add: ensure_dir_def)
  have b: "fst (subprocess_run ?E ''echo hi'' None 30 sim0) = Finished ''hi\<newline>'' [] 0"
    by (simp add: sim_env_def)
  show ?thesis
    using run_echo_hi [of ?E None sim0 sim0 30, OF p a b] a b by simp
qed

section \<open>Properties of the agent session\<close>

lemma attempts_retryable:
  assumes "\<And>msgs w. \<exists>e w'. completion E msgs w = (Failure e, w') \<and> retryable e"
  shows "fst (attempts E m a k s) = None \<and> messages (snd (attempts E m a k s)) = messages s"
proof (induction k arbitrary: a s)
  case 0
  show ?case by simp
next
  case (Suc k)
  let ?s1 = "if a > 0 then s\<lparr>trace := trace s @ [Slept (2 ^ a)], world := sleep E (2 ^ a) (world s)\<rparr> else s"
  obtain e w' where c: "completion E (messages ?s1) (world ?s1) = (Failure e, w')" and r: "retryable e"
    using assms by blast
  let ?s2 = "?s1\<lparr>trace := trace ?s1 @ [Asked (messages ?s1)], world := w'\<rparr>"
  have step: "attempts E m a (Suc k) s = attempts E m (Suc a) k ?s2"
    using c r by (simp add: Let_def retryable_def)
  have "messages ?s2 = messages s" by simp
  with Suc.IH [of "Suc a" ?s2] step show ?case by simp
qed

text \<open>
  Claim C1 says that a call of \<open>query_llm\<close> whose attempts all fail returns a non-empty
  failure text, never an absent value, and leaves the conversation as long as it was,
  whatever the kind of the failures. The code does so only when the last failure is
  neither a rate limit nor a timeout. Here the model answers each of the three attempts
  with \<open>Rate limit exceeded\<close>: the \<open>continue\<close> of the last attempt ends the loop, the
  function returns \<open>None\<close>, and the user message stays in the conversation, which is one
  message longer than before. The delays before the second and third attempt are 2 and 4
  seconds.
\<close>

theorem query_llm_rate_limited_returns_None:
  "fst (query_llm (sim_env (\<lambda>c. TimeoutExpired)) ''hello'' 3
          (sim_state (failing ''Rate limit exceeded'' 3))) = None \<and>
   messages (snd (query_llm (sim_env (\<lambda>c. TimeoutExpired)) ''hello'' 3
          (sim_state (failing ''Rate limit exceeded'' 3)))) =
     messages (sim_state (failing ''Rate limit exceeded'' 3)) @ [(''user'', ''hello'')] \<and>
   filter (\<lambda>ev. case ev of Slept n \<Rightarrow> True | _ \<Rightarrow> False)
     (trace (snd (query_llm (sim_env (\<lambda>c. TimeoutExpired)) ''hello'' 3
          (sim_state (failing ''Rate limit exceeded'' 3))))) = [Slept 2, Slept 4]"
  by code_simp

text \<open>
  The sibling path: when the failures are of another kind, the third attempt returns the
  failure text and takes the user message back.
\<close>

lemma query_llm_other_error_falls_back:
  "fst (query_llm (sim_env (\<lambda>c. TimeoutExpired)) ''hello'' 3
          (sim_state (failing ''Bad gateway'' 3))) =
     Some ''LLM query failed after 3 attempts. Last error: Bad gateway'' \<and>
   messages (snd (query_llm (sim_env (\<lambda>c. TimeoutExpired)) ''hello'' 3
          (sim_state (failing ''Bad gateway'' 3)))) =
     messages (sim_state (failing ''Bad gateway'' 3))"
  by code_simp

text \<open>
  The failing input is not special: for every number of attempts, a model that fails each
  time with a rate limit or a timeout makes \<open>query_llm\<close> return \<open>None\<close> with the user
  message left in the conversation.
\<close>

lemma query_llm_retryable_None:
  assumes "\<And>msgs w. \<exists>e w'. completion E msgs w = (Failure e, w') \<and> retryable e"
  shows "fst (query_llm E message n s) = None \<and>
         messages (snd (query_llm E message n s)) = messages s @ [(''user'', message)]"
  using attempts_retryable [OF assms, of n 0 n "say (''user'', message) s"]
  by (simp add: query_llm_def say_def)

section \<open>Properties of the actions of a reply\<close>

lemma obs_append [simp]:
  "paths_checked (a @ b) = paths_checked a @ paths_checked b"
  "dirs_made (a @ b) = dirs_made a @ dirs_made b"
  "said (a @ b) = said a @ said b"
  "commands_run (a @ b) = commands_run a @ commands_run b"
  "files_read (a @ b) = files_read a @ files_read b"
  "files_written (a @ b) = files_written a @ files_written b"
  by (simp_all add: paths_checked_def dirs_made_def said_def commands_run_def files_read_def
        files_written_def)

lemma obs_nil [simp]:
  "paths_checked [] = []" "dirs_made [] = []" "said [] = []" "commands_run [] = []"
  "files_read [] = []" "files_written [] = []"
  by (simp_all add: paths_checked_def dirs_made_def said_def commands_run_def files_read_def
        files_written_def)

lemma paths_checked_simps [simp]:
  "paths_checked (PathExists p # t) = p # paths_checked t"
  "paths_checked (MakeDirs d # t) = paths_checked t" "paths_checked (Ran c # t) = paths_checked t"
  "paths_checked (WroteFile p x # t) = paths_checked t" "paths_checked (ReadFile p # t) = paths_checked t"
  "paths_checked (Said m # t) = paths_checked t" "paths_checked (Asked ms # t) = paths_checked t"
  "paths_checked (Slept n # t) = paths_checked t" "paths_checked (Unsaid # t) = paths_checked t"
  "paths_checked (Printed l # t) = paths_checked t"
  by (simp_all add: paths_checked_def)

lemma dirs_made_simps [simp]:
  "dirs_made (PathExists p # t) = dirs_made t"
  "dirs_made (MakeDirs d # t) = d # dirs_made t" "dirs_made (Ran c # t) = dirs_made t"
  "dirs_made (WroteFile p x # t) = dirs_made t" "dirs_made (ReadFile p # t) = dirs_made t"
  "dirs_made (Said m # t) = dirs_made t" "dirs_made (Asked ms # t) = dirs_made t"
  "dirs_made (Slept n # t) = dirs_made t" "dirs_made (Unsaid # t) = dirs_made t"
  "dirs_made (Printed l # t) = dirs_made t"
  by (simp_all add: dirs_made_def)

lemma said_simps [simp]:
  "said (PathExists p # t) = said t"
  "said (MakeDirs d # t) = said t" "said (Ran c # t) = said t"
  "said (WroteFile p x # t) = said t" "said (ReadFile p # t) = said t"
  "said (Said m # t) = m # said t" "said (Asked ms # t) = said t"
  "said (Slept n # t) = said t" "said (Unsaid # t) = said t"
  "said (Printed l # t) = said t"
  by (simp_all add: said_def)

lemma commands_run_simps [simp]:
  "commands_run (PathExists p # t) = commands_run t"
  "commands_run (MakeDirs d # t) = commands_run t" "commands_run (Ran c # t) = c # commands_run t"
  "commands_run (WroteFile p x # t) = commands_run t" "commands_run (ReadFile p # t) = commands_run t"
  "commands_run (Said m # t) = commands_run t" "commands_run (Asked ms # t) = commands_run t"
  "commands_run (Slept n # t) = commands_run t" "commands_run (Unsaid # t) = commands_run t"
  "commands_run (Printed l # t) = commands_run t"
  by (simp_all add: commands_run_def)

lemma files_read_simps [simp]:
  "files_read (PathExists p # t) = files_read t"
  "files_read (MakeDirs d # t) = files_read t" "files_read (Ran c # t) = files_read t"
  "files_read (WroteFile p x # t) = files_read t" "files_read (ReadFile p # t) = p # files_read t"
  "files_read (Said m # t) = files_read t" "files_read (Asked ms # t) = files_read t"
  "files_read (Slept n # t) = files_read t" "files_read (Unsaid # t) = files_read t"
  "files_read (Printed l # t) = files_read t"
  by (simp_all add: files_read_def)

lemma files_written_simps [simp]:
  "files_written (PathExists p # t) = files_written t"
  "files_written (MakeDirs d # t) = files_written t" "files_written (Ran c # t) = files_written t"
  "files_written (WroteFile p x # t) = (p, x) # files_written t"
  "files_written (ReadFile p # t) = files_written t"
  "files_written (Said m # t) = files_written t" "files_written (Asked ms # t) = files_written t"
  "files_written (Slept n # t) = files_written t" "files_written (Unsaid # t) = files_written t"
  "files_written (Printed l # t) = files_written t"
  by (simp_all add: files_written_def)

lemma kind_simps [simp]:
  "is_read (ReadFile p)" "\<not> is_read (PathExists p)" "\<not> is_read (MakeDirs d)" "\<not> is_read (Ran c)"
  "\<not> is_read (WroteFile p x)" "\<not> is_read (Said m)"
  "is_write (WroteFile p x)" "\<not> is_write (PathExists p)" "\<not> is_write (MakeDirs d)" "\<not> is_write (Ran c)"
  "\<not> is_write (ReadFile p)" "\<not> is_write (Said m)"
  "is_run (Ran c)" "\<not> is_run (PathExists p)" "\<not> is_run (MakeDirs d)" "\<not> is_run (WroteFile p x)"
  "\<not> is_run (ReadFile p)" "\<not> is_run (Said m)"
  "\<not> is_read (Asked ms)" "\<not> is_read (Slept n)" "\<not> is_read Unsaid" "\<not> is_read (Printed l)"
  "\<not> is_write (Asked ms)" "\<not> is_write (Slept n)" "\<not> is_write Unsaid" "\<not> is_write (Printed l)"
  "\<not> is_run (Asked ms)" "\<not> is_run (Slept n)" "\<not> is_run Unsaid" "\<not> is_run (Printed l)"
  by (simp_all add: is_read_def is_write_def is_run_def)


subsection \<open>The code performs the actions of the specification\<close>




lemma is_run_action_simps [simp]:
  "is_run_action (RunAction c)" "\<not> is_run_action (ReadAction p)" "\<not> is_run_action (CreateAction f)"
  by (simp_all add: is_run_action_def)



lemma no_run_actions_left [simp]:
  "filter (\<lambda>b. \<not> is_run_action b) (map RunAction cs) = []"
  by (induction cs) simp_all



subsection \<open>The effects of one action and of a stage\<close>



















subsection \<open>The order of a reply's actions\<close>



section \<open>Paths outside of the project directory\<close>

text \<open>No path is refused: a read returns the text of whatever file the joined path names.\<close>

lemma execute_read_file_any_path:
  assumes "path_exists E (path_join (project_dir s) p) (world s)"
    and "read_file E (path_join (project_dir s) p) (world s) = Inr text"
  shows "fst (execute_read_file E p s) = (True, ''Contents of '' @ p @ '':\<newline>'' @ text)"
  using assms by (simp add: execute_read_file_def Let_def)

text \<open>
  Claim C9. The paths of the read and create actions are joined to the project directory
  and used as they are. The reply \<open>demo_reply\<close> asks for the file \<open>../escape.txt\<close> to be
  created and for \<open>../../secret.txt\<close> to be read; the project directory is
  \<open>/srv/projects/demo\<close>. Both joined paths lie outside of the project directory; the
  file is written and the other file's text is returned and appended to the
  conversation.
\<close>

theorem path_traversal_not_checked:
  "path (hd (extract_file_creations demo_reply)) = ''../escape.txt'' \<and>
   extract_read_file_calls demo_reply = [''../../secret.txt''] \<and>
   project_dir demo_state = ''/srv/projects/demo'' \<and>
   \<not> inside (project_dir demo_state) (path_join (project_dir demo_state) ''../escape.txt'') \<and>
   \<not> inside (project_dir demo_state) (path_join (project_dir demo_state) ''../../secret.txt'') \<and>
   fst (apply_reply demo_env demo_reply demo_state) =
     Inr [(True, ''Contents of ../../secret.txt:\<newline>s3cr3t''),
          (True, ''Created file: ../escape.txt\<newline>Size: 1 bytes''),
          (True, ''$ ls\<newline>ok\<newline>Exit code: 0\<newline>''),
          (False, ''$ false\<newline>Exit code: 1\<newline>'')] \<and>
   ReadFile ''/srv/projects/demo/../../secret.txt''
     \<in> set (trace (snd (apply_reply demo_env demo_reply demo_state))) \<and>
   WroteFile ''/srv/projects/demo/../escape.txt'' ''x''
     \<in> set (trace (snd (apply_reply demo_env demo_reply demo_state))) \<and>
   map_of (sim_files (world (snd (apply_reply demo_env demo_reply demo_state))))
     [''srv'', ''projects'', ''escape.txt''] = Some ''x'' \<and>
   (''user'', ''Contents of ../../secret.txt:\<newline>s3cr3t'')
     \<in> set (messages (snd (apply_reply demo_env demo_reply demo_state)))"
  by code_simp

section \<open>Properties of the worker\<close>

subsection \<open>What a query, an action and a commit leave as they are\<close>


lemma registry_kept_refl [simp]: "registry_kept s s"
  by (simp add: registry_kept_def)













lemma find_update_task_None:
  "find (\<lambda>t. task_id t = tid) ts = None \<Longrightarrow> update_task tid f ts = ts"
  by (induction ts) (auto split: if_splits)


subsection \<open>The queries of a run\<close>

lemma queries_append [simp]: "queries (a @ b) = queries a + queries b"
  by (simp add: queries_def)

lemma queries_simps [simp]:
  "queries [] = 0" "queries (Asked m # t) = Suc (queries t)"
  "queries (Slept n # t) = queries t" "queries (Said x # t) = queries t"
  "queries (Unsaid # t) = queries t"
  by (simp_all add: queries_def)









subsection \<open>A completion phrase in a reply\<close>




lemma find_update_task_other:
  "find (\<lambda>t. task_id t = tid) ts = Some t \<Longrightarrow>
   find (\<lambda>t. task_id t = tid) (update_task tid f ts) = Some (f t) \<or> task_id (f t) \<noteq> tid"
  by (induction ts) (auto split: if_splits)



end
